theory Spec2Isabelle
  imports Main
begin

section \<open>Python strings\<close>

text \<open>
  A Python \<open>str\<close> is a sequence of Unicode code points; it is modelled as the list of
  these code points. \<open>lit\<close> turns an ASCII literal into such a string.
\<close>

type_synonym pystr = "nat list"

definition lit :: "string \<Rightarrow> pystr" where
  "lit s = map of_char s"

text \<open>\<open>s.startswith(p)\<close> and the substring test \<open>p in s\<close>.\<close>

fun startswith :: "pystr \<Rightarrow> pystr \<Rightarrow> bool" where
  "startswith s [] = True"
| "startswith [] (p # ps) = False"
| "startswith (c # cs) (p # ps) = (c = p \<and> startswith cs ps)"

fun str_contains :: "pystr \<Rightarrow> pystr \<Rightarrow> bool" where
  "str_contains p [] = (p = [])"
| "str_contains p (c # cs) = (startswith (c # cs) p \<or> str_contains p cs)"

text \<open>
  \<open>str.strip()\<close> without argument removes leading and trailing white space, which for a
  \<open>str\<close> is the set of code points for which \<open>str.isspace\<close> holds.
\<close>

definition py_isspace :: "nat \<Rightarrow> bool" where
  "py_isspace c =
     ((9 \<le> c \<and> c \<le> 13) \<or> (28 \<le> c \<and> c \<le> 32) \<or> c = 133 \<or> c = 160 \<or> c = 5760
      \<or> (8192 \<le> c \<and> c \<le> 8202) \<or> c = 8232 \<or> c = 8233 \<or> c = 8239 \<or> c = 8287
      \<or> c = 12288)"

definition strip :: "pystr \<Rightarrow> pystr" where
  "strip s = rev (dropWhile py_isspace (rev (dropWhile py_isspace s)))"

text \<open>\<open>str(i)\<close> for a natural number: its decimal digits.\<close>

fun str_nat :: "nat \<Rightarrow> pystr" where
  "str_nat n = (if n < 10 then [48 + n] else str_nat (n div 10) @ [48 + n mod 10])"

declare str_nat.simps [simp del]

section \<open>The keyword filter \<open>MATH_PATTERN\<close>\<close>

text \<open>
  \<open>MATH_PATTERN\<close> is an alternation of literal keywords compiled with \<open>re.IGNORECASE\<close>;
  \<open>MATH_PATTERN.search(text)\<close> succeeds when some keyword occurs somewhere in the text,
  letters compared without regard to case. The keywords are written in lower case. For a
  \<open>str\<close> pattern the comparison is the one of Python's \<open>re\<close> module: a character of the
  text matches the pattern letter when its lower-case form is that letter; besides
  \<open>A\<close>..\<open>Z\<close> the only code points with an ASCII lower-case form are U+0130 (for \<open>i\<close>) and
  U+212A (for \<open>k\<close>), and \<open>re\<close> further lets U+0131 match \<open>i\<close> and U+017F match \<open>s\<close>.
\<close>

definition MATH_KEYWORDS :: "pystr list" where
  "MATH_KEYWORDS = map lit
     [''math'', ''algorithm'', ''complexity'', ''big o'', ''equation'', ''formula'',
      ''calculus'', ''linear algebra'', ''statistics'', ''probability'', ''optimization'',
      ''function'', ''graph'', ''plot'', ''solve'', ''compute'', ''matrix'', ''vector'',
      ''derivative'', ''integral'', ''theorem'', ''proof'']"

definition ignorecase_eq :: "nat \<Rightarrow> nat \<Rightarrow> bool" where
  "ignorecase_eq p c =
     (c = p \<or> (65 \<le> c \<and> c \<le> 90 \<and> c + 32 = p)
      \<or> (p = 105 \<and> (c = 304 \<or> c = 305)) \<or> (p = 107 \<and> c = 8490) \<or> (p = 115 \<and> c = 383))"

fun match_here :: "pystr \<Rightarrow> pystr \<Rightarrow> bool" where
  "match_here [] s = True"
| "match_here (p # ps) [] = False"
| "match_here (p # ps) (c # cs) = (ignorecase_eq p c \<and> match_here ps cs)"

fun search_keyword :: "pystr \<Rightarrow> pystr \<Rightarrow> bool" where
  "search_keyword kw [] = match_here kw []"
| "search_keyword kw (c # cs) = (match_here kw (c # cs) \<or> search_keyword kw cs)"

definition search_any :: "pystr list \<Rightarrow> pystr \<Rightarrow> bool" where
  "search_any kws s = list_ex (\<lambda>kw. search_keyword kw s) kws"

definition MATH_PATTERN_search :: "pystr \<Rightarrow> bool" where
  "MATH_PATTERN_search s = search_any MATH_KEYWORDS s"

section \<open>Removing mention tokens\<close>

text \<open>
  \<open>re.sub(r"<@[A-Z0-9]+>", "", s)\<close> scans the string from the left; at each position it
  tries to match \<open><@\<close>, a non-empty run of upper-case ASCII letters and digits, and \<open>>\<close>.
  A match is deleted and the scan goes on behind it; otherwise the character is kept and
  the scan goes on at the next position. The run is taken greedily, and since \<open>>\<close> is not
  in the class a shorter run can never be followed by \<open>>\<close>.
\<close>

definition mention_char :: "nat \<Rightarrow> bool" where
  "mention_char c = ((65 \<le> c \<and> c \<le> 90) \<or> (48 \<le> c \<and> c \<le> 57))"

text \<open>
  \<open>match_mention s\<close> is the rest of \<open>s\<close> behind a mention token at its very start, when
  there is one.
\<close>

fun match_mention :: "pystr \<Rightarrow> pystr option" where
  "match_mention (a # b # c # cs) =
     (if a = 60 \<and> b = 64 \<and> mention_char c
      then (case dropWhile mention_char cs of
              d # ds \<Rightarrow> if d = 62 then Some ds else None
            | [] \<Rightarrow> None)
      else None)"
| "match_mention s = None"

lemma match_mention_shorter: "match_mention s = Some r \<Longrightarrow> length r < length s"
proof (induction s rule: match_mention.induct)
  case (1 a b c cs)
  have "length (dropWhile mention_char cs) \<le> length cs"
    by (rule length_dropWhile_le)
  with 1 show ?case
    by (auto split: if_splits list.splits)
qed simp_all

function remove_mentions :: "pystr \<Rightarrow> pystr" where
  "remove_mentions [] = []"
| "remove_mentions (c # cs) =
     (case match_mention (c # cs) of
        Some rest \<Rightarrow> remove_mentions rest
      | None \<Rightarrow> c # remove_mentions cs)"
  by pat_completeness auto
termination
  by (relation "measure length") (auto dest: match_mention_shorter)

section \<open>Python values and exceptions\<close>

text \<open>
  The values found in tool results and content blocks (\<open>Dict[str, Any]\<close>). Floats are
  kept abstract (the type parameter \<open>'f\<close>). A \<open>dict\<close> is an association list with
  distinct keys, looked up with \<open>map_of\<close>.
\<close>

datatype 'f pyval =
    PNone
  | PBool bool
  | PInt int
  | PFloat 'f
  | PStr pystr
  | PList "'f pyval list"
  | PDict "(pystr \<times> 'f pyval) list"

text \<open>
  The exceptions that occur, all of them subclasses of \<open>Exception\<close>. \<open>Raised m\<close> is an
  exception raised by the Agent or by the chat client, of which only \<open>str(e) = m\<close> is
  observed. \<open>exn_str\<close> is \<open>str(e)\<close>; for a \<open>KeyError\<close> it is the key in quotes.
\<close>

datatype exn = KeyError pystr | TypeError pystr | AttributeError pystr | Raised pystr

fun exn_str :: "exn \<Rightarrow> pystr" where
  "exn_str (KeyError k) = [39] @ k @ [39]"
| "exn_str (TypeError m) = m"
| "exn_str (AttributeError m) = m"
| "exn_str (Raised m) = m"

fun type_name :: "'f pyval \<Rightarrow> pystr" where
  "type_name PNone = lit ''NoneType''"
| "type_name (PBool b) = lit ''bool''"
| "type_name (PInt i) = lit ''int''"
| "type_name (PFloat x) = lit ''float''"
| "type_name (PStr s) = lit ''str''"
| "type_name (PList xs) = lit ''list''"
| "type_name (PDict d) = lit ''dict''"

section \<open>\<open>extract_text_from_result\<close>\<close>

text \<open>
  Of an \<open>AgentResult\<close> the function reads the attribute \<open>content\<close>, which may be missing
  (\<open>hasattr\<close> fails), and \<open>str(result)\<close>, here the field \<open>rendering\<close>.
\<close>

record 'f agent_result =
  content :: "'f pyval option"
  rendering :: pystr

text \<open>The loop over the blocks, appending \<open>block["text"]\<close> to \<open>text_parts\<close>.\<close>

fun collect_text :: "'f pyval list \<Rightarrow> 'f pyval list \<Rightarrow> 'f pyval list" where
  "collect_text [] text_parts = text_parts"
| "collect_text (block # blocks) text_parts =
     (case block of
        PDict d \<Rightarrow>
          (case map_of d (lit ''text'') of
             Some t \<Rightarrow> collect_text blocks (text_parts @ [t])
           | None \<Rightarrow> collect_text blocks text_parts)
      | _ \<Rightarrow> collect_text blocks text_parts)"

text \<open>
  \<open>sep.join(items)\<close>: every item has to be a \<open>str\<close>, otherwise \<open>TypeError\<close> is raised for
  the first item that is not.
\<close>

fun join_items :: "nat \<Rightarrow> 'f pyval list \<Rightarrow> exn + pystr list" where
  "join_items i [] = Inr []"
| "join_items i (v # vs) =
     (case v of
        PStr s \<Rightarrow> (case join_items (Suc i) vs of Inl e \<Rightarrow> Inl e | Inr ss \<Rightarrow> Inr (s # ss))
      | _ \<Rightarrow> Inl (TypeError (lit ''sequence item '' @ str_nat i
                @ lit '': expected str instance, '' @ type_name v @ lit '' found'')))"

fun join_strs :: "pystr \<Rightarrow> pystr list \<Rightarrow> pystr" where
  "join_strs sep [] = []"
| "join_strs sep [s] = s"
| "join_strs sep (s # t # ss) = s @ sep @ join_strs sep (t # ss)"

definition str_join :: "pystr \<Rightarrow> 'f pyval list \<Rightarrow> exn + pystr" where
  "str_join sep items =
     (case join_items 0 items of Inl e \<Rightarrow> Inl e | Inr ss \<Rightarrow> Inr (join_strs sep ss))"

definition extract_text_from_result :: "'f agent_result \<Rightarrow> exn + pystr" where
  "extract_text_from_result result =
     (case content result of
        Some (PStr s) \<Rightarrow> Inr s
      | c \<Rightarrow>
          (let text_parts = (case c of Some (PList blocks) \<Rightarrow> collect_text blocks [] | _ \<Rightarrow> [])
           in if text_parts \<noteq> [] then str_join [10] text_parts
              else Inr (rendering result)))"

section \<open>Events, collaborators and what a handler does\<close>

text \<open>
  The event payloads, with the fields the handlers read; a field that may be missing from
  the payload is an option, and a subscript on a missing key raises \<open>KeyError\<close>. Field
  values are strings, as the platform delivers them.
\<close>

record event =
  bot_id :: "pystr option"
  channel :: "pystr option"
  ts :: "pystr option"
  thread_ts :: "pystr option"
  message_text :: "pystr option"

record item_ref =
  item_channel :: "pystr option"
  item_ts :: "pystr option"

record reaction_event =
  user :: "pystr option"
  reaction :: "pystr option"
  item :: "item_ref option"

text \<open>
  The calls a handler makes on its collaborators, in the order it makes them.
  \<open>ConversationsHistory c t\<close> stands for
  \<open>conversations_history(channel=c, latest=t, inclusive=True, limit=1)\<close>.
\<close>

datatype call =
    ReactionsAdd pystr pystr pystr
  | ChatPostMessage pystr pystr pystr
  | AuthTest
  | ConversationsHistory pystr pystr
  | AgentCall pystr

fun is_post :: "call \<Rightarrow> bool" where
  "is_post (ChatPostMessage c t m) = True"
| "is_post other = False"

fun is_react :: "call \<Rightarrow> bool" where
  "is_react (ReactionsAdd c t n) = True"
| "is_react other = False"

fun post_text :: "call \<Rightarrow> pystr" where
  "post_text (ChatPostMessage c t m) = m"
| "post_text other = []"

text \<open>
  The collaborators are opaque: each answers a call with a value or an exception, and the
  answer may depend on the calls made before (the first argument). \<open>send\<close> answers
  \<open>reactions_add\<close> and \<open>chat_postMessage\<close>, whose value is not used; \<open>auth_test\<close> gives
  the bot's \<open>user_id\<close>; \<open>conversations_history\<close> gives the \<open>messages\<close>, of each its
  \<open>text\<close> when it has one.
\<close>

record 'f env =
  send :: "call list \<Rightarrow> call \<Rightarrow> exn option"
  auth_test :: "call list \<Rightarrow> exn + pystr"
  conversations_history :: "call list \<Rightarrow> call \<Rightarrow> exn + pystr option list"
  agent :: "call list \<Rightarrow> pystr \<Rightarrow> exn + 'f agent_result"

text \<open>
  What running a handler on one event amounts to: the calls it made, what it logged with
  \<open>logger.error\<close>, and the exception it ended with, if any.
\<close>

record outcome =
  calls :: "call list"
  logged :: "pystr list"
  raised :: "exn option"

definition error_template :: pystr where
  "error_template = lit ''I encountered an error while processing your request: ''"

definition plot_placeholder :: pystr where
  "plot_placeholder =
     lit ''I've generated a plot for you, but I can't display it directly in Slack. ''
     @ lit ''Here's the textual explanation instead.''"

definition truthy_field :: "pystr option \<Rightarrow> bool" where
  "truthy_field v = (case v of None \<Rightarrow> False | Some s \<Rightarrow> s \<noteq> [])"

text \<open>\<open>event.get("thread_ts", event["ts"])\<close>, once \<open>event["ts"]\<close> has been read.\<close>

definition thread_of :: "event \<Rightarrow> pystr \<Rightarrow> pystr" where
  "thread_of ev ts0 = (case thread_ts ev of Some t \<Rightarrow> t | None \<Rightarrow> ts0)"

text \<open>\<open>event.get("text", "")\<close>\<close>

definition get_text :: "event \<Rightarrow> pystr" where
  "get_text ev = (case message_text ev of Some s \<Rightarrow> s | None \<Rightarrow> [])"

section \<open>\<open>handle_message_events\<close>\<close>

definition handle_message_events :: "'f env \<Rightarrow> event \<Rightarrow> outcome" where
  "handle_message_events E ev =
     (if truthy_field (bot_id ev) then \<lparr>calls = [], logged = [], raised = None\<rparr>
      else case channel ev of
        None \<Rightarrow> \<lparr>calls = [], logged = [], raised = Some (KeyError (lit ''channel''))\<rparr>
      | Some channel_id \<Rightarrow>
      (case ts ev of
        None \<Rightarrow> \<lparr>calls = [], logged = [], raised = Some (KeyError (lit ''ts''))\<rparr>
      | Some ts0 \<Rightarrow>
        (let thread = thread_of ev ts0;
             user_message = get_text ev
         in if MATH_PATTERN_search user_message then
           (let react = ReactionsAdd channel_id ts0 (lit ''brain'');
                log1 = (case send E [] react of
                          None \<Rightarrow> []
                        | Some e \<Rightarrow> [lit ''Error adding reaction: '' @ exn_str e]);
                tr = [react, AgentCall user_message];
                attempt =
                  (case agent E [react] user_message of
                     Inl e \<Rightarrow> Inl (tr, e)
                   | Inr result \<Rightarrow>
                     (case extract_text_from_result result of
                        Inl e \<Rightarrow> Inl (tr, e)
                      | Inr text_response \<Rightarrow>
                        (let post = ChatPostMessage channel_id thread
                               (if str_contains (lit ''image_base64'') text_response
                                then plot_placeholder else text_response)
                         in case send E tr post of
                              Some e \<Rightarrow> Inl (tr @ [post], e)
                            | None \<Rightarrow> Inr (tr @ [post]))))
            in case attempt of
                 Inr done \<Rightarrow> \<lparr>calls = done, logged = log1, raised = None\<rparr>
               | Inl (made, e) \<Rightarrow>
                 (let reply = ChatPostMessage channel_id thread (error_template @ exn_str e)
                  in \<lparr>calls = made @ [reply],
                      logged = log1 @ [lit ''Error processing message: '' @ exn_str e],
                      raised = send E made reply\<rparr>))
           else \<lparr>calls = [], logged = [], raised = None\<rparr>)))"

section \<open>\<open>handle_app_mentions\<close>\<close>

definition mention_query :: "pystr \<Rightarrow> pystr" where
  "mention_query s = strip (remove_mentions s)"

definition handle_app_mentions :: "'f env \<Rightarrow> event \<Rightarrow> outcome" where
  "handle_app_mentions E ev =
     (case channel ev of
        None \<Rightarrow> \<lparr>calls = [], logged = [], raised = Some (KeyError (lit ''channel''))\<rparr>
      | Some channel_id \<Rightarrow>
      (case ts ev of
        None \<Rightarrow> \<lparr>calls = [], logged = [], raised = Some (KeyError (lit ''ts''))\<rparr>
      | Some ts0 \<Rightarrow>
        (let thread = thread_of ev ts0;
             user_message = mention_query (get_text ev);
             tr = [AgentCall user_message];
             attempt =
               (case agent E [] user_message of
                  Inl e \<Rightarrow> Inl (tr, e)
                | Inr result \<Rightarrow>
                  (case extract_text_from_result result of
                     Inl e \<Rightarrow> Inl (tr, e)
                   | Inr text_response \<Rightarrow>
                     (let post = ChatPostMessage channel_id thread text_response
                      in case send E tr post of
                           Some e \<Rightarrow> Inl (tr @ [post], e)
                         | None \<Rightarrow> Inr (tr @ [post]))))
         in case attempt of
              Inr done \<Rightarrow> \<lparr>calls = done, logged = [], raised = None\<rparr>
            | Inl (made, e) \<Rightarrow>
              (let reply = ChatPostMessage channel_id thread (error_template @ exn_str e)
               in \<lparr>calls = made @ [reply],
                   logged = [lit ''Error processing mention: '' @ exn_str e],
                   raised = send E made reply\<rparr>))))"

section \<open>\<open>handle_reaction_added\<close>\<close>


section \<open>\<open>parse_tool_response\<close>\<close>

text \<open>
  What the function uses of Python itself is taken as a parameter: whether a float is
  non-zero (its truth value), \<open>str(v)\<close> for a value that is not a \<open>str\<close>, and
  \<open>format(v, ".4f")\<close>, which raises for a value that has no such format.
\<close>

record 'f builtins =
  float_nonzero :: "'f \<Rightarrow> bool"
  py_str :: "'f pyval \<Rightarrow> pystr"
  format_4f :: "'f pyval \<Rightarrow> exn + pystr"

fun truthy :: "'f builtins \<Rightarrow> 'f pyval \<Rightarrow> bool" where
  "truthy B PNone = False"
| "truthy B (PBool b) = b"
| "truthy B (PInt i) = (i \<noteq> 0)"
| "truthy B (PFloat x) = float_nonzero B x"
| "truthy B (PStr s) = (s \<noteq> [])"
| "truthy B (PList xs) = (xs \<noteq> [])"
| "truthy B (PDict d) = (d \<noteq> [])"

text \<open>A replacement field \<open>{v}\<close> of an f-string: a \<open>str\<close> as it is, else \<open>str(v)\<close>.\<close>

fun format_value :: "'f builtins \<Rightarrow> 'f pyval \<Rightarrow> pystr" where
  "format_value B (PStr s) = s"
| "format_value B v = py_str B v"

text \<open>\<open>d[k]\<close>, \<open>d.get(k, default)\<close> and \<open>k in d\<close>.\<close>

definition getitem :: "(pystr \<times> 'f pyval) list \<Rightarrow> pystr \<Rightarrow> exn + 'f pyval" where
  "getitem d k = (case map_of d k of None \<Rightarrow> Inl (KeyError k) | Some v \<Rightarrow> Inr v)"

definition dict_get :: "(pystr \<times> 'f pyval) list \<Rightarrow> pystr \<Rightarrow> 'f pyval \<Rightarrow> 'f pyval" where
  "dict_get d k dflt = (case map_of d k of None \<Rightarrow> dflt | Some v \<Rightarrow> v)"

definition has_key :: "(pystr \<times> 'f pyval) list \<Rightarrow> pystr \<Rightarrow> bool" where
  "has_key d k = (map_of d k \<noteq> None)"

text \<open>An exception ends the evaluation; \<open>bind_exn\<close> sequences two steps.\<close>

definition bind_exn :: "exn + 'a \<Rightarrow> ('a \<Rightarrow> exn + 'b) \<Rightarrow> exn + 'b" where
  "bind_exn r f = (case r of Inl e \<Rightarrow> Inl e | Inr v \<Rightarrow> f v)"

text \<open>
  The items a \<open>for\<close> loop takes from a value: the elements of a list, the characters of a
  string, the keys of a dict; anything else is not iterable.
\<close>

fun iter_values :: "'f pyval \<Rightarrow> exn + 'f pyval list" where
  "iter_values (PList xs) = Inr xs"
| "iter_values (PStr s) = Inr (map (\<lambda>c. PStr [c]) s)"
| "iter_values (PDict d) = Inr (map (\<lambda>kv. PStr (fst kv)) d)"
| "iter_values v = Inl (TypeError ([39] @ type_name v @ [39] @ lit '' object is not iterable''))"

text \<open>The loop \<open>for i, step in enumerate(steps, 1)\<close>, from index \<open>i\<close> on.\<close>

fun format_steps :: "'f builtins \<Rightarrow> nat \<Rightarrow> 'f pyval list \<Rightarrow> pystr" where
  "format_steps B i [] = []"
| "format_steps B i (step # steps) =
     str_nat i @ lit ''. '' @ format_value B step @ [10] @ format_steps B (Suc i) steps"

text \<open>The branch \<open>if "solution" in response\<close>.\<close>

definition format_solution :: "'f builtins \<Rightarrow> (pystr \<times> 'f pyval) list \<Rightarrow> exn + pystr" where
  "format_solution B response =
     bind_exn (getitem response (lit ''solution'')) (\<lambda>solution.
       let result = lit ''*Solution:* '' @ format_value B solution @ [10, 10]
       in if has_key response (lit ''steps'')
             \<and> truthy B (dict_get response (lit ''steps'') PNone)
          then bind_exn (iter_values (dict_get response (lit ''steps'') PNone)) (\<lambda>steps.
                 Inr (result @ lit ''*Step-by-step solution:*'' @ [10] @ format_steps B 1 steps))
          else Inr result)"

text \<open>
  The branch \<open>elif "mean" in response\<close>. The fields of the f-string are evaluated and
  formatted from left to right. The bullet is the character U+2022.
\<close>

definition bullet :: pystr where
  "bullet = [8226]"

definition field_4f :: "'f builtins \<Rightarrow> (pystr \<times> 'f pyval) list \<Rightarrow> pystr \<Rightarrow> exn + pystr" where
  "field_4f B response k = bind_exn (getitem response k) (format_4f B)"

definition format_statistics :: "'f builtins \<Rightarrow> (pystr \<times> 'f pyval) list \<Rightarrow> exn + pystr" where
  "format_statistics B response =
     bind_exn (getitem response (lit ''count'')) (\<lambda>count.
     bind_exn (field_4f B response (lit ''mean'')) (\<lambda>mean.
     bind_exn (field_4f B response (lit ''median'')) (\<lambda>median.
     bind_exn (field_4f B response (lit ''std_dev'')) (\<lambda>std_dev.
     bind_exn (field_4f B response (lit ''min'')) (\<lambda>minimum.
     bind_exn (field_4f B response (lit ''max'')) (\<lambda>maximum.
     bind_exn (field_4f B response (lit ''iqr'')) (\<lambda>iqr.
       Inr (lit ''*Statistical Analysis:*'' @ [10]
            @ bullet @ lit '' Count: '' @ format_value B count @ [10]
            @ bullet @ lit '' Mean: '' @ mean @ [10]
            @ bullet @ lit '' Median: '' @ median @ [10]
            @ bullet @ lit '' Standard Deviation: '' @ std_dev @ [10]
            @ bullet @ lit '' Range: '' @ minimum @ lit '' to '' @ maximum @ [10]
            @ bullet @ lit '' Interquartile Range: '' @ iqr))))))))"

text \<open>
  The branch \<open>elif "complexity" in response\<close>. \<open>complexity.get\<close> exists only when
  \<open>complexity\<close> is a dict.
\<close>

definition format_time :: "'f builtins \<Rightarrow> (pystr \<times> 'f pyval) list \<Rightarrow> exn + pystr" where
  "format_time B complexity =
     (case map_of complexity (lit ''time'') of
        Some (PDict time) \<Rightarrow>
          bind_exn (getitem time (lit ''best'')) (\<lambda>best.
          bind_exn (getitem time (lit ''average'')) (\<lambda>average.
          bind_exn (getitem time (lit ''worst'')) (\<lambda>worst.
            Inr (lit ''*Time Complexity:*'' @ [10]
                 @ bullet @ lit '' Best case: '' @ format_value B best @ [10]
                 @ bullet @ lit '' Average case: '' @ format_value B average @ [10]
                 @ bullet @ lit '' Worst case: '' @ format_value B worst @ [10]))))
      | _ \<Rightarrow>
          Inr (lit ''*Time Complexity:* ''
               @ format_value B (dict_get complexity (lit ''time'') (PStr (lit ''Unknown'')))
               @ [10]))"

definition format_complexity :: "'f builtins \<Rightarrow> (pystr \<times> 'f pyval) list \<Rightarrow> exn + pystr" where
  "format_complexity B response =
     bind_exn (getitem response (lit ''complexity'')) (\<lambda>complexity.
     bind_exn (getitem response (lit ''algorithm'')) (\<lambda>algorithm.
       let result = lit ''*Algorithm:* '' @ format_value B algorithm @ [10, 10]
       in case complexity of
            PDict c \<Rightarrow>
              bind_exn (format_time B c) (\<lambda>time_lines.
                Inr (result @ time_lines
                     @ lit ''*Space Complexity:* ''
                     @ format_value B (dict_get c (lit ''space'') (PStr (lit ''Unknown''))) @ [10]
                     @ (if has_key c (lit ''stable'')
                        then lit ''*Stable:* ''
                             @ (if truthy B (dict_get c (lit ''stable'') PNone)
                                then lit ''Yes'' else lit ''No'') @ [10]
                        else [])
                     @ (if has_key c (lit ''description'')
                        then [10] @ lit ''*Description:*'' @ [10]
                             @ format_value B (dict_get c (lit ''description'') PNone)
                        else [])))
          | v \<Rightarrow> Inl (AttributeError ([39] @ type_name v @ [39]
                         @ lit '' object has no attribute '' @ [39] @ lit ''get'' @ [39]))))"

definition parse_tool_response :: "'f builtins \<Rightarrow> (pystr \<times> 'f pyval) list \<Rightarrow> exn + pystr" where
  "parse_tool_response B response =
     (if \<not> truthy B (dict_get response (lit ''success'') (PBool False))
      then Inr (lit ''Error: ''
                @ format_value B (dict_get response (lit ''error'') (PStr (lit ''Unknown error''))))
      else if has_key response (lit ''solution'') then format_solution B response
      else if has_key response (lit ''mean'') then format_statistics B response
      else if has_key response (lit ''complexity'') then format_complexity B response
      else Inr (py_str B (PDict response)))"

section \<open>Notions used in the statements\<close>

text \<open>
  The keyword vocabulary as the specification lists it, in lower case; it has \<open>big-O\<close>
  where \<open>MATH_PATTERN\<close> has \<open>big o\<close>.
\<close>

definition SPEC_VOCABULARY :: "pystr list" where
  "SPEC_VOCABULARY = map lit
     [''math'', ''algorithm'', ''complexity'', ''equation'', ''formula'', ''calculus'',
      ''statistics'', ''probability'', ''matrix'', ''vector'', ''derivative'', ''integral'',
      ''theorem'', ''proof'', ''graph'', ''plot'', ''solve'', ''compute'', ''function'',
      ''big-o'', ''linear algebra'', ''optimization'']"

text \<open>A mention token occurs somewhere in the string.\<close>

fun has_mention :: "pystr \<Rightarrow> bool" where
  "has_mention [] = False"
| "has_mention (c # cs) = (match_mention (c # cs) \<noteq> None \<or> has_mention cs)"

text \<open>
  The specification's reading of the mention handler's query: the mention token at the
  start of the text is removed, and the result trimmed.
\<close>

definition strip_leading_mention :: "pystr \<Rightarrow> pystr" where
  "strip_leading_mention s = strip (case match_mention s of Some rest \<Rightarrow> rest | None \<Rightarrow> s)"






text \<open>
  Conditions on a tool result: it is successful; the keys the statistics and complexity
  branches subscript are present; the values have the shapes these branches and the
  solution branch rely on.
\<close>

definition successful :: "'f builtins \<Rightarrow> (pystr \<times> 'f pyval) list \<Rightarrow> bool" where
  "successful B r = truthy B (dict_get r (lit ''success'') (PBool False))"

definition stat_fields :: "pystr list" where
  "stat_fields = map lit [''mean'', ''median'', ''std_dev'', ''min'', ''max'', ''iqr'']"

fun iterable :: "'f pyval \<Rightarrow> bool" where
  "iterable (PList xs) = True"
| "iterable (PStr s) = True"
| "iterable (PDict d) = True"
| "iterable v = False"

definition time_keys_present :: "(pystr \<times> 'f pyval) list \<Rightarrow> bool" where
  "time_keys_present c =
     (case map_of c (lit ''time'') of
        Some (PDict t) \<Rightarrow>
          has_key t (lit ''best'') \<and> has_key t (lit ''average'') \<and> has_key t (lit ''worst'')
      | _ \<Rightarrow> True)"

definition keys_present :: "'f builtins \<Rightarrow> (pystr \<times> 'f pyval) list \<Rightarrow> bool" where
  "keys_present B r =
     (if successful B r \<and> \<not> has_key r (lit ''solution'') \<and> has_key r (lit ''mean'')
      then list_all (has_key r) (lit ''count'' # stat_fields)
      else if successful B r \<and> \<not> has_key r (lit ''solution'') \<and> \<not> has_key r (lit ''mean'')
              \<and> has_key r (lit ''complexity'')
      then has_key r (lit ''algorithm'')
           \<and> (case map_of r (lit ''complexity'') of
                Some (PDict c) \<Rightarrow> time_keys_present c
              | _ \<Rightarrow> True)
      else True)"

definition values_ok :: "'f builtins \<Rightarrow> (pystr \<times> 'f pyval) list \<Rightarrow> bool" where
  "values_ok B r =
     (if \<not> successful B r then True
      else if has_key r (lit ''solution'')
      then (has_key r (lit ''steps'') \<and> truthy B (dict_get r (lit ''steps'') PNone)
            \<longrightarrow> iterable (dict_get r (lit ''steps'') PNone))
      else if has_key r (lit ''mean'')
      then list_all (\<lambda>k. case map_of r k of Some v \<Rightarrow> \<not> isl (format_4f B v) | None \<Rightarrow> True)
             stat_fields
      else if has_key r (lit ''complexity'')
      then (case map_of r (lit ''complexity'') of Some (PDict c) \<Rightarrow> True | _ \<Rightarrow> False)
      else True)"

section \<open>Sample collaborators and events\<close>

text \<open>
  An Agent that answers with its input, one that returns a plot payload, one that raises;
  a chat client that accepts every call, and one on which every call fails.
\<close>

definition echo_agent :: "call list \<Rightarrow> pystr \<Rightarrow> exn + unit agent_result" where
  "echo_agent h q = Inr \<lparr>content = Some (PStr q), rendering = lit ''AgentResult''\<rparr>"

definition plot_agent :: "call list \<Rightarrow> pystr \<Rightarrow> exn + unit agent_result" where
  "plot_agent h q =
     Inr \<lparr>content = Some (PStr (lit ''{image_base64: iVBORw0KGgo=, function: x**2}'')),
          rendering = lit ''AgentResult''\<rparr>"


definition sample_env ::
  "(call list \<Rightarrow> call \<Rightarrow> exn option) \<Rightarrow> (call list \<Rightarrow> pystr \<Rightarrow> exn + unit agent_result)
   \<Rightarrow> unit env" where
  "sample_env client agt =
     \<lparr>send = client,
      auth_test = (\<lambda>h. Inr (lit ''UBOT'')),
      conversations_history = (\<lambda>h c. Inr [Some (lit ''solve x**2-4'')]),
      agent = agt\<rparr>"

definition accepting :: "call list \<Rightarrow> call \<Rightarrow> exn option" where
  "accepting h c = None"


definition sample_event :: "pystr \<Rightarrow> event" where
  "sample_event s =
     \<lparr>bot_id = None, channel = Some (lit ''C1''), ts = Some (lit ''17.01''),
      thread_ts = None, message_text = Some s\<rparr>"



definition sample_builtins :: "unit builtins" where
  "sample_builtins =
     \<lparr>float_nonzero = (\<lambda>x. True),
      py_str = (\<lambda>v. [60] @ type_name v @ [62]),
      format_4f = (\<lambda>v. case v of
                     PFloat x \<Rightarrow> Inr (lit ''2.5000'')
                   | _ \<Rightarrow> Inl (TypeError (lit ''unsupported format string'')))\<rparr>"

text \<open>
  Tool results: a failure that also carries other keys, a solution that also has a
  \<open>mean\<close>, the result of \<open>calculate_statistics\<close>, and a complexity given as a string.
\<close>

definition sample_failure :: "(pystr \<times> unit pyval) list" where
  "sample_failure =
     [(lit ''success'', PBool False), (lit ''error'', PStr (lit ''bad input'')),
      (lit ''solution'', PStr (lit ''2'')), (lit ''mean'', PInt 3)]"


definition sample_statistics :: "(pystr \<times> unit pyval) list" where
  "sample_statistics =
     [(lit ''success'', PBool True), (lit ''count'', PInt 4), (lit ''mean'', PFloat ()),
      (lit ''median'', PFloat ()), (lit ''std_dev'', PFloat ()), (lit ''variance'', PFloat ()),
      (lit ''min'', PFloat ()), (lit ''max'', PFloat ()), (lit ''iqr'', PFloat ())]"

definition sample_complexity :: "(pystr \<times> unit pyval) list" where
  "sample_complexity =
     [(lit ''success'', PBool True), (lit ''algorithm'', PStr (lit ''quick_sort'')),
      (lit ''complexity'', PStr (lit ''O(n log n)''))]"

section \<open>The keyword filter of \<open>handle_message_events\<close>\<close>

text \<open>
  C1, as stated: for every plain-message event whose text does not match the keyword
  vocabulary of the specification (with \<open>big-O\<close>), \<open>handle_message_events\<close> makes no call.
  This fails: the text \<open>big o\<close> matches no keyword of that vocabulary, yet the handler
  reacts, invokes the Agent and posts, because \<open>MATH_PATTERN\<close> has the keyword \<open>big o\<close>.
\<close>

theorem C1_spec_vocabulary_counterexample:
  "\<not> search_any SPEC_VOCABULARY (get_text (sample_event (lit ''big o'')))
   \<and> calls (handle_message_events (sample_env accepting echo_agent) (sample_event (lit ''big o'')))
       = [ReactionsAdd (lit ''C1'') (lit ''17.01'') (lit ''brain''),
          AgentCall (lit ''big o''),
          ChatPostMessage (lit ''C1'') (lit ''17.01'') (lit ''big o'')]"
  by code_simp

text \<open>
  C1, amended: for every plain-message event whose text does not match \<open>MATH_PATTERN\<close>
  (the vocabulary with \<open>big o\<close>, not \<open>big-O\<close>), \<open>handle_message_events\<close> is a no-op: it
  makes no reaction, no Agent invocation and no post, and logs nothing.
\<close>

theorem C1_no_match_no_calls:
  "\<not> MATH_PATTERN_search (get_text ev) \<Longrightarrow>
   calls (handle_message_events E ev) = [] \<and> logged (handle_message_events E ev) = []"
  by (simp add: handle_message_events_def Let_def split: option.splits)

theorem C1_no_match_no_calls_witness:
  "\<not> MATH_PATTERN_search (get_text (sample_event (lit ''What is the Big-O of quicksort?'')))
   \<and> calls (handle_message_events (sample_env accepting echo_agent)
              (sample_event (lit ''What is the Big-O of quicksort?''))) = []"
proof -
  have h: "\<not> MATH_PATTERN_search (get_text (sample_event (lit ''What is the Big-O of quicksort?'')))"
    by code_simp
  from C1_no_match_no_calls [OF h, of "sample_env accepting echo_agent"] h
  show ?thesis by simp
qed

section \<open>Reaction and reply of \<open>handle_message_events\<close>\<close>




section \<open>What the handlers do when processing fails\<close>






section \<open>Image payloads\<close>

lemma message_handler_replaces_image:
  assumes "\<not> truthy_field (bot_id ev)" and "channel ev = Some c" and "ts ev = Some t"
    and "MATH_PATTERN_search (get_text ev)"
    and "agent E [ReactionsAdd c t (lit ''brain'')] (get_text ev) = Inr result"
    and "extract_text_from_result result = Inr text_response"
    and "str_contains (lit ''image_base64'') text_response"
  shows "filter is_post (calls (handle_message_events E ev)) =
           ChatPostMessage c (thread_of ev t) plot_placeholder #
           (case send E [ReactionsAdd c t (lit ''brain''), AgentCall (get_text ev)]
                   (ChatPostMessage c (thread_of ev t) plot_placeholder) of
              None \<Rightarrow> []
            | Some e \<Rightarrow> [ChatPostMessage c (thread_of ev t) (error_template @ exn_str e)])"
  using assms
  by (simp add: handle_message_events_def Let_def split: option.splits)

lemma mention_handler_posts_verbatim:
  assumes "channel ev = Some c" and "ts ev = Some t"
    and "agent E [] (mention_query (get_text ev)) = Inr result"
    and "extract_text_from_result result = Inr text_response"
  shows "hd (filter is_post (calls (handle_app_mentions E ev))) =
           ChatPostMessage c (thread_of ev t) text_response"
  using assms
  by (simp add: handle_app_mentions_def Let_def split: option.splits)

text \<open>
  C8 asks every handler that posts an Agent response to replace a text containing
  \<open>image_base64\<close> by the placeholder. \<open>handle_message_events\<close> does; \<open>handle_app_mentions\<close>
  posts the text as it is: for a mention whose Agent answer carries a plot payload, the
  payload is the text of the posted message, whereas the same answer to a plain message is
  replaced by the placeholder.
\<close>

theorem C8_mention_posts_image_payload:
  "calls (handle_app_mentions (sample_env accepting plot_agent)
            (sample_event (lit ''<@U123ABC> plot x**2''))) =
     [AgentCall (lit ''plot x**2''),
      ChatPostMessage (lit ''C1'') (lit ''17.01'')
        (lit ''{image_base64: iVBORw0KGgo=, function: x**2}'')]
   \<and> str_contains (lit ''image_base64'') (lit ''{image_base64: iVBORw0KGgo=, function: x**2}'')
   \<and> calls (handle_message_events (sample_env accepting plot_agent)
            (sample_event (lit ''plot x**2''))) =
     [ReactionsAdd (lit ''C1'') (lit ''17.01'') (lit ''brain''),
      AgentCall (lit ''plot x**2''),
      ChatPostMessage (lit ''C1'') (lit ''17.01'') plot_placeholder]"
  by code_simp


section \<open>The query of \<open>handle_app_mentions\<close>\<close>

lemma remove_mentions_id: "\<not> has_mention s \<Longrightarrow> remove_mentions s = s"
  by (induction s) auto

lemma not_mention_char_delims [simp]: "\<not> mention_char 60" "\<not> mention_char 62"
  by (simp_all add: mention_char_def)

lemma match_mention_token:
  assumes "uid \<noteq> []" and "list_all mention_char uid"
  shows "match_mention ([60, 64] @ uid @ 62 # post) = Some post"
proof -
  from assms(1) obtain u us where uid: "uid = u # us" by (cases uid) auto
  with assms(2) have u: "mention_char u" and us: "\<forall>x\<in>set us. mention_char x"
    by (auto simp add: list_all_iff)
  from us have "dropWhile mention_char (us @ 62 # post) = 62 # post"
    by (simp add: dropWhile_append3)
  with u show ?thesis by (simp add: uid)
qed

lemma match_mention_extend:
  assumes "match_mention s = None" and "s \<noteq> []"
  shows "match_mention (s @ 60 # rest) = None"
proof -
  from assms(2) consider
      (long) a b c cs where "s = a # b # c # cs"
    | (two) a b where "s = [a, b]"
    | (one) a where "s = [a]"
    by (cases s rule: match_mention.cases) auto
  then show ?thesis
  proof cases
    case long
    show ?thesis
    proof (cases "a = 60 \<and> b = 64 \<and> mention_char c")
      case False
      then show ?thesis by (auto simp add: long)
    next
      case True
      show ?thesis
      proof (cases "dropWhile mention_char cs")
        case Nil
        then have "\<forall>x\<in>set cs. mention_char x" by (simp add: dropWhile_eq_Nil_conv)
        then have "dropWhile mention_char (cs @ 60 # rest) = 60 # rest"
          by (simp add: dropWhile_append3)
        then show ?thesis by (simp add: long)
      next
        case (Cons d ds)
        then have "dropWhile mention_char (cs @ 60 # rest) = (d # ds) @ 60 # rest"
          by (metis dropWhile_append1 dropWhile_eq_Nil_conv list.distinct(1))
        moreover from assms(1) True Cons have "d \<noteq> 62"
          by (auto simp add: long split: if_splits)
        ultimately show ?thesis by (simp add: long)
      qed
    qed
  next
    case two
    then show ?thesis by simp
  next
    case one
    then show ?thesis by (cases rest) auto
  qed
qed

lemma remove_mentions_token:
  assumes "uid \<noteq> []" and "list_all mention_char uid" and "\<not> has_mention pre"
  shows "remove_mentions (pre @ [60, 64] @ uid @ 62 # post) = pre @ remove_mentions post"
  using assms(3)
proof (induction pre)
  case Nil
  from match_mention_token [OF assms(1,2), of post] show ?case by simp
next
  case (Cons c cs)
  then have "match_mention (c # cs) = None" by simp
  then have "match_mention ((c # cs) @ 60 # (64 # uid @ 62 # post)) = None"
    by (rule match_mention_extend) simp
  with Cons show ?case by simp
qed

text \<open>
  C7, as stated: \<open>handle_app_mentions\<close> strips the leading user-mention token and trims
  the text before invoking the Agent. This fails for a text with a further mention: the
  handler removes that one too, so the Agent receives \<open>ask  about x\<close> where stripping the
  leading token alone gives \<open>ask <@U456DEF> about x\<close>.
\<close>

theorem C7_further_mention_counterexample:
  "hd (calls (handle_app_mentions (sample_env accepting echo_agent)
                (sample_event (lit ''<@U123ABC> ask <@U456DEF> about x''))))
     = AgentCall (lit ''ask  about x'')
   \<and> strip_leading_mention (lit ''<@U123ABC> ask <@U456DEF> about x'')
     = lit ''ask <@U456DEF> about x''"
  by code_simp

text \<open>
  C7, amended: \<open>handle_app_mentions\<close> removes every user-mention token \<open><@[A-Z0-9]+>\<close>
  from the text, not only a leading one, and trims the result before invoking the Agent:
  for a text with a token behind a prefix free of tokens, the query is the prefix followed
  by the rest with its tokens removed, trimmed; when the rest has no token, it is the
  prefix followed by the rest, trimmed. For \<open><@U123ABC> solve x**2-4\<close> the query is
  \<open>solve x**2-4\<close>.
\<close>

theorem C7_mention_query:
  assumes "channel ev = Some c" and "ts ev = Some t"
    and "message_text ev = Some (pre @ lit ''<@'' @ uid @ lit ''>'' @ post)"
    and "uid \<noteq> []" and "list_all mention_char uid" and "\<not> has_mention pre"
  shows "hd (calls (handle_app_mentions E ev)) = AgentCall (strip (pre @ remove_mentions post))
       \<and> (\<not> has_mention post \<longrightarrow>
            hd (calls (handle_app_mentions E ev)) = AgentCall (strip (pre @ post)))"
proof -
  have "lit ''<@'' = [60, 64]" and "lit ''>'' = [62]"
    by (simp_all add: lit_def)
  with assms(3) have "get_text ev = pre @ [60, 64] @ uid @ 62 # post"
    by (simp add: get_text_def)
  with remove_mentions_token [OF assms(4,5,6), of post]
  have q: "mention_query (get_text ev) = strip (pre @ remove_mentions post)"
    by (simp add: mention_query_def)
  from assms(1,2)
  have "hd (calls (handle_app_mentions E ev)) = AgentCall (mention_query (get_text ev))"
    by (simp add: handle_app_mentions_def Let_def split: sum.splits option.splits)
  with q show ?thesis
    by (simp add: remove_mentions_id)
qed

theorem C7_mention_query_witness:
  "hd (calls (handle_app_mentions (sample_env accepting echo_agent)
                (sample_event (lit ''<@U123ABC> solve x**2-4''))))
     = AgentCall (lit ''solve x**2-4'')"
proof -
  let ?ev = "sample_event (lit ''<@U123ABC> solve x**2-4'')"
  have c: "channel ?ev = Some (lit ''C1'')" and t: "ts ?ev = Some (lit ''17.01'')"
    by (simp_all add: sample_event_def)
  have m: "message_text ?ev
      = Some ([] @ lit ''<@'' @ lit ''U123ABC'' @ lit ''>'' @ lit '' solve x**2-4'')"
    by (simp add: sample_event_def lit_def)
  have u: "lit ''U123ABC'' \<noteq> []" by (simp add: lit_def)
  have a: "list_all mention_char (lit ''U123ABC'')" by code_simp
  have p: "\<not> has_mention []" by simp
  have n: "\<not> has_mention (lit '' solve x**2-4'')" by code_simp
  have s: "strip ([] @ lit '' solve x**2-4'') = lit ''solve x**2-4''" by code_simp
  from C7_mention_query [OF c t m u a p, of "sample_env accepting echo_agent"]
  have "\<not> has_mention (lit '' solve x**2-4'') \<longrightarrow>
      hd (calls (handle_app_mentions (sample_env accepting echo_agent) ?ev))
        = AgentCall (strip ([] @ lit '' solve x**2-4''))"
    by (rule conjunct2)
  from this n
  have "hd (calls (handle_app_mentions (sample_env accepting echo_agent) ?ev))
        = AgentCall (strip ([] @ lit '' solve x**2-4''))"
    by (rule mp)
  then show ?thesis by (simp only: s)
qed


section \<open>The text of an Agent result\<close>









section \<open>The failure branch of \<open>parse_tool_response\<close>\<close>

text \<open>
  C4: for every tool result whose \<open>success\<close> is \<open>False\<close>, \<open>parse_tool_response\<close> returns
  \<open>Error: \<close> followed by the \<open>error\<close> value (itself when it is a string, its \<open>str\<close>
  otherwise), or \<open>Error: Unknown error\<close> when there is no \<open>error\<close> key, whatever other keys
  the result has.
\<close>

theorem C4_failure_format:
  assumes "map_of r (lit ''success'') = Some (PBool False)"
  shows "(\<forall>e. map_of r (lit ''error'') = Some (PStr e)
            \<longrightarrow> parse_tool_response B r = Inr (lit ''Error: '' @ e))
       \<and> (map_of r (lit ''error'') = None
            \<longrightarrow> parse_tool_response B r = Inr (lit ''Error: Unknown error''))
       \<and> (\<forall>v. map_of r (lit ''error'') = Some v
            \<longrightarrow> parse_tool_response B r = Inr (lit ''Error: '' @ format_value B v))"
  using assms
  by (simp add: parse_tool_response_def dict_get_def lit_def)

theorem C4_failure_format_witness:
  "parse_tool_response sample_builtins sample_failure = Inr (lit ''Error: bad input'')"
proof -
  have s: "map_of sample_failure (lit ''success'') = Some (PBool False)" by code_simp
  have e: "map_of sample_failure (lit ''error'') = Some (PStr (lit ''bad input''))" by code_simp
  have l: "lit ''Error: '' @ lit ''bad input'' = lit ''Error: bad input''"
    by (simp add: lit_def)
  from C4_failure_format [OF s, of sample_builtins] e
  have "parse_tool_response sample_builtins sample_failure
      = Inr (lit ''Error: '' @ lit ''bad input'')"
    by blast
  then show ?thesis by (simp only: l)
qed

section \<open>The order of the branches of \<open>parse_tool_response\<close>\<close>






section \<open>When \<open>parse_tool_response\<close> returns\<close>

lemma isl_bind_exn: "isl (bind_exn r f) \<longleftrightarrow> isl r \<or> isl (f (projr r))"
  by (cases r) (simp_all add: bind_exn_def)

lemma isl_getitem: "isl (getitem d k) \<longleftrightarrow> \<not> has_key d k"
  by (simp add: getitem_def has_key_def split: option.splits)

lemma getitem_Inr: "getitem d k = Inr v \<longleftrightarrow> map_of d k = Some v"
  by (simp add: getitem_def split: option.splits)

lemma isl_field_4f:
  "isl (field_4f B r k) \<longleftrightarrow>
     \<not> (has_key r k \<and> (case map_of r k of Some v \<Rightarrow> \<not> isl (format_4f B v) | None \<Rightarrow> True))"
  by (auto simp add: field_4f_def isl_bind_exn getitem_def has_key_def
      split: option.splits)

lemma isl_iter_values: "isl (iter_values v) \<longleftrightarrow> \<not> iterable v"
  by (cases v) simp_all

lemma solution_total:
  "has_key r (lit ''solution'') \<Longrightarrow>
   isl (format_solution B r) \<longleftrightarrow>
     (has_key r (lit ''steps'') \<and> truthy B (dict_get r (lit ''steps'') PNone)
      \<and> \<not> iterable (dict_get r (lit ''steps'') PNone))"
  by (auto simp add: format_solution_def isl_bind_exn isl_getitem Let_def
      isl_iter_values)

lemma statistics_total:
  "isl (format_statistics B r) \<longleftrightarrow>
     \<not> (list_all (has_key r) (lit ''count'' # stat_fields)
        \<and> list_all (\<lambda>k. case map_of r k of Some v \<Rightarrow> \<not> isl (format_4f B v) | None \<Rightarrow> True)
             stat_fields)"
  unfolding format_statistics_def stat_fields_def
  by (simp add: isl_bind_exn isl_getitem isl_field_4f) blast


lemma time_total: "isl (format_time B c) \<longleftrightarrow> \<not> time_keys_present c"
  by (auto simp add: format_time_def time_keys_present_def isl_bind_exn isl_getitem
      split: option.splits pyval.splits)

lemma complexity_total:
  "has_key r (lit ''complexity'') \<Longrightarrow>
   isl (format_complexity B r) \<longleftrightarrow>
     \<not> (has_key r (lit ''algorithm'')
        \<and> (case map_of r (lit ''complexity'') of
             Some (PDict c) \<Rightarrow> time_keys_present c
           | _ \<Rightarrow> False))"
  by (auto simp add: format_complexity_def isl_bind_exn isl_getitem getitem_def has_key_def
      time_total Let_def split: option.splits pyval.splits)

lemma missing_count_raises:
  assumes "successful B r" and "\<not> has_key r (lit ''solution'')" and "has_key r (lit ''mean'')"
    and "\<not> has_key r (lit ''count'')"
  shows "parse_tool_response B r = Inl (KeyError (lit ''count''))"
  using assms
  by (simp add: parse_tool_response_def successful_def format_statistics_def bind_exn_def
      getitem_def has_key_def)

lemma missing_algorithm_raises:
  assumes "successful B r" and "\<not> has_key r (lit ''solution'')"
    and "\<not> has_key r (lit ''mean'')" and "has_key r (lit ''complexity'')"
    and "\<not> has_key r (lit ''algorithm'')"
  shows "parse_tool_response B r = Inl (KeyError (lit ''algorithm''))"
  using assms
  by (auto simp add: parse_tool_response_def successful_def format_complexity_def bind_exn_def
      getitem_def has_key_def)

text \<open>
  C10, as stated: \<open>parse_tool_response\<close> raises when a key that the statistics or
  complexity branch subscripts is missing, and under the presence of these keys no branch
  raises. The second part fails: a successful result with \<open>algorithm\<close> and a \<open>complexity\<close>
  that is a string has every key asked for, yet \<open>complexity.get\<close> raises \<open>AttributeError\<close>.
\<close>

theorem C10_keys_not_enough_counterexample:
  "successful sample_builtins sample_complexity
   \<and> keys_present sample_builtins sample_complexity
   \<and> parse_tool_response sample_builtins sample_complexity
     = Inl (AttributeError ([39] @ lit ''str'' @ [39] @ lit '' object has no attribute ''
                            @ [39] @ lit ''get'' @ [39]))"
  by code_simp

text \<open>
  C10, amended: \<open>parse_tool_response\<close> returns a string exactly when the keys are present
  (for a successful result whose first matching key is \<open>mean\<close>: \<open>count\<close>, \<open>median\<close>,
  \<open>std_dev\<close>, \<open>min\<close>, \<open>max\<close> and \<open>iqr\<close>; for one whose first matching key is
  \<open>complexity\<close>: \<open>algorithm\<close> and, when \<open>complexity["time"]\<close> is a dict, its \<open>best\<close>,
  \<open>average\<close> and \<open>worst\<close>) and the values have the shapes the branches rely on (a truthy
  \<open>steps\<close> is a list, string or dict; each of the six statistics accepts the format
  \<open>.4f\<close>; \<open>complexity\<close> is a dict). Otherwise it raises.
\<close>

theorem C10_total_iff_well_formed:
  "\<not> isl (parse_tool_response B r) \<longleftrightarrow> keys_present B r \<and> values_ok B r"
proof (cases "successful B r")
  case False
  then show ?thesis
    by (simp add: parse_tool_response_def keys_present_def values_ok_def successful_def)
next
  case ok: True
  show ?thesis
  proof (cases "has_key r (lit ''solution'')")
    case True
    with ok show ?thesis
      using solution_total [OF True, of B]
      by (auto simp add: parse_tool_response_def keys_present_def values_ok_def successful_def)
  next
    case nosol: False
    show ?thesis
    proof (cases "has_key r (lit ''mean'')")
      case True
      with ok nosol show ?thesis
        using statistics_total [of B r]
        by (auto simp add: parse_tool_response_def keys_present_def values_ok_def successful_def)
    next
      case nomean: False
      show ?thesis
      proof (cases "has_key r (lit ''complexity'')")
        case True
        with ok nosol nomean show ?thesis
          using complexity_total [OF True, of B]
          by (auto simp add: parse_tool_response_def keys_present_def values_ok_def
              successful_def split: option.splits pyval.splits)
      next
        case False
        with ok nosol nomean show ?thesis
          by (simp add: parse_tool_response_def keys_present_def values_ok_def successful_def)
      qed
    qed
  qed
qed

theorem C10_total_iff_well_formed_witness:
  "\<not> isl (parse_tool_response sample_builtins sample_statistics)"
proof -
  have k: "keys_present sample_builtins sample_statistics" by code_simp
  have v: "values_ok sample_builtins sample_statistics" by code_simp
  from C10_total_iff_well_formed [of sample_builtins sample_statistics] k v
  show ?thesis by simp
qed

end
